theory Spec2Isabelle
  imports Main
begin

section \<open>Python values, dictionaries and exceptions\<close>

text \<open>
  The adapter in \<^verbatim>\<open>src/langchain/keboola_mcp_tools.py\<close> handles untyped Python
  values: keyword arguments, the result of \<^verbatim>\<open>json.loads\<close>, and the parameter
  definitions of a JSON schema. They are modelled by one datatype. A Python \<^verbatim>\<open>dict\<close>
  keeps its insertion order, and the query fallback depends on that order, so a
  dictionary is an association list in insertion order.
\<close>

datatype pyval =
    PNone
  | PBool bool
  | PInt int
  | PStr string
  | PList "pyval list"
  | PDict "(string \<times> pyval) list"

type_synonym dict = "(string \<times> pyval) list"

definition keys :: "dict \<Rightarrow> string list" where
  "keys d = map fst d"

text \<open>
  Exceptions are values: a class and the string that \<^verbatim>\<open>str(e)\<close> gives. The class
  matters where the source has a handler for one class only
  (\<^verbatim>\<open>except RuntimeError\<close>, \<^verbatim>\<open>except json.JSONDecodeError\<close>,
  \<^verbatim>\<open>except asyncio.TimeoutError\<close>) and for \<^verbatim>\<open>except Exception\<close>, which does not catch
  the classes that derive from \<^verbatim>\<open>BaseException\<close> directly: \<^verbatim>\<open>asyncio.CancelledError\<close>,
  \<^verbatim>\<open>KeyboardInterrupt\<close> and \<^verbatim>\<open>SystemExit\<close>. \<open>OtherError\<close> stands for every other class
  below \<^verbatim>\<open>Exception\<close>.
\<close>

datatype exn_class =
    RuntimeError | TimeoutError | JSONDecodeError | ValueError | OtherError
  | CancelledError | KeyboardInterrupt | SystemExit

datatype exn = Exn exn_class string

fun exn_class_of :: "exn \<Rightarrow> exn_class" where
  "exn_class_of (Exn c m) = c"

fun str_exn :: "exn \<Rightarrow> string" where
  "str_exn (Exn c m) = m"

text \<open>\<^verbatim>\<open>isinstance(e, Exception)\<close>: what \<^verbatim>\<open>except Exception\<close> catches.\<close>

fun below_Exception :: "exn_class \<Rightarrow> bool" where
  "below_Exception CancelledError = False"
| "below_Exception KeyboardInterrupt = False"
| "below_Exception SystemExit = False"
| "below_Exception RuntimeError = True"
| "below_Exception TimeoutError = True"
| "below_Exception JSONDecodeError = True"
| "below_Exception ValueError = True"
| "below_Exception OtherError = True"

definition is_Exception :: "exn \<Rightarrow> bool" where
  "is_Exception e = below_Exception (exn_class_of e)"

text \<open>
  A call that waits on the subprocess may return, raise, or never come back. Its
  outcome is \<open>Some (Inr x)\<close> when it returns \<open>x\<close>, \<open>Some (Inl e)\<close> when it raises \<open>e\<close>, and
  \<open>None\<close> when it never ends.
\<close>

type_synonym 'a outcome = "(exn + 'a) option"

section \<open>Argument reconciliation\<close>

text \<open>
  \<^verbatim>\<open>schema_properties = self.mcp_tool_schema.get('properties', {})\<close>: the tool's schema
  is represented by its \<^verbatim>\<open>properties\<close> entry, \<open>None\<close> when the schema has no such
  key. The entry of a JSON schema object is itself an object, so its type here is a
  dictionary from parameter names to parameter definitions.
\<close>

type_synonym tool_schema = "dict option"

definition get_properties :: "tool_schema \<Rightarrow> dict" where
  "get_properties s = (case s of None \<Rightarrow> [] | Some ps \<Rightarrow> ps)"

text \<open>
  \<^verbatim>\<open>isinstance(param_def, dict) and param_def.get('type') == 'string'\<close>
\<close>

fun is_string_def :: "pyval \<Rightarrow> bool" where
  "is_string_def (PDict d) = (map_of d ''type'' = Some (PStr ''string''))"
| "is_string_def _ = False"

text \<open>
  The loop \<^verbatim>\<open>for param_name, param_def in schema_properties.items()\<close> with its
  \<^verbatim>\<open>break\<close> at the first string parameter.
\<close>

fun first_string_param :: "dict \<Rightarrow> string option" where
  "first_string_param [] = None"
| "first_string_param ((param_name, param_def) # rest) =
     (if is_string_def param_def then Some param_name else first_string_param rest)"

text \<open>
  Lines 127 to 146 of \<^verbatim>\<open>_arun_with_args\<close>: the placeholder for an empty payload, the
  filter by the schema's keys, and the fallback for a \<^verbatim>\<open>query\<close> key. The test
  \<^verbatim>\<open>'query' in arguments\<close> and the read \<^verbatim>\<open>arguments['query']\<close> are one lookup.
\<close>

definition reconcile :: "dict \<Rightarrow> dict \<Rightarrow> dict" where
  "reconcile schema_properties arguments0 =
     (let arguments =
            (if arguments0 = [] \<and> ''random_string'' \<in> set (keys schema_properties)
             then [(''random_string'', PStr ''dummy'')]
             else arguments0)
      in if schema_properties \<noteq> [] then
           (let filtered_arguments =
                  filter (\<lambda>(k, v). k \<in> set (keys schema_properties)) arguments
            in if filtered_arguments = [] then
                 (case map_of arguments ''query'' of
                    None \<Rightarrow> filtered_arguments
                  | Some q \<Rightarrow>
                      (case first_string_param schema_properties of
                         None \<Rightarrow> filtered_arguments
                       | Some param_name \<Rightarrow> [(param_name, q)]))
               else filtered_arguments)
         else arguments)"

section \<open>Decoding the caller's input\<close>

text \<open>
  \<^verbatim>\<open>json.loads\<close> and \<^verbatim>\<open>str\<close> belong to Python, not to the repository: they are
  parameters of the model. \<^verbatim>\<open>json_loads\<close> returns the parsed value or the exception it
  raised.
\<close>

record pylib =
  json_loads :: "string \<Rightarrow> exn + pyval"
  py_str :: "pyval \<Rightarrow> string"

text \<open>
  \<^verbatim>\<open>arguments = {k: v for k, v in arguments.items() if v is not None}\<close>
\<close>

definition drop_none :: "dict \<Rightarrow> dict" where
  "drop_none arguments = filter (\<lambda>(k, v). v \<noteq> PNone) arguments"

text \<open>
  Lines 41 to 61 of \<^verbatim>\<open>_run\<close>, repeated word for word as lines 95 to 116 of
  \<^verbatim>\<open>_arun\<close>: keyword arguments first, then the input parsed as JSON, then the raw
  input. Only \<^verbatim>\<open>json.JSONDecodeError\<close> is handled here; any other exception of the
  parser leaves the block.
\<close>

definition decode_arguments :: "pylib \<Rightarrow> string \<Rightarrow> dict \<Rightarrow> exn + dict" where
  "decode_arguments lib tool_input kwargs =
     (let arguments =
            (if kwargs \<noteq> [] then Inr kwargs
             else if tool_input \<noteq> [] then
               (case json_loads lib tool_input of
                  Inr parsed_input \<Rightarrow>
                    (case parsed_input of
                       PDict d \<Rightarrow> Inr d
                     | _ \<Rightarrow> Inr [(''query'', PStr (py_str lib parsed_input))])
                | Inl e \<Rightarrow>
                    if exn_class_of e = JSONDecodeError
                    then Inr [(''query'', PStr tool_input)]
                    else Inl e)
             else Inr [])
      in case arguments of Inl e \<Rightarrow> Inl e | Inr a \<Rightarrow> Inr (drop_none a))"

section \<open>The session and the result of a call\<close>

text \<open>
  A content part either has a \<^verbatim>\<open>text\<close> attribute, and \<open>WithText\<close> carries
  \<^verbatim>\<open>str(item.text)\<close>, or it has none, and \<open>NoText\<close> carries \<^verbatim>\<open>str(item)\<close>.
\<close>

datatype content_item = WithText string | NoText string

fun item_str :: "content_item \<Rightarrow> string" where
  "item_str (WithText t) = t"
| "item_str (NoText s) = s"

text \<open>
  \<^verbatim>\<open>result.content\<close> is a list of parts, or some other object, given by its truth
  value and its \<^verbatim>\<open>str\<close>. The field \<open>content\<close> is \<open>None\<close> when the result has no such
  attribute; \<open>result_str\<close> is \<^verbatim>\<open>str(result)\<close>.
\<close>

datatype content_value = ContentList "content_item list" | ContentOther bool string

record call_tool_result =
  content :: "content_value option"
  result_str :: string

text \<open>Python's \<^verbatim>\<open>sep.join(xs)\<close>.\<close>

fun join :: "string \<Rightarrow> string list \<Rightarrow> string" where
  "join sep [] = []"
| "join sep [x] = x"
| "join sep (x # y # ys) = x @ sep @ join sep (y # ys)"

definition newline :: string where
  "newline = [CHR 0x0A]"

text \<open>Lines 160 to 167: the text returned for a result.\<close>

definition extract_content :: "call_tool_result \<Rightarrow> string" where
  "extract_content result =
     (case content result of
        None \<Rightarrow> result_str result
      | Some (ContentList items) \<Rightarrow>
          if items \<noteq> [] then join newline (map item_str items) else result_str result
      | Some (ContentOther truthy s) \<Rightarrow>
          if truthy then s else result_str result)"

record server_params =
  command :: string
  args :: "string list"
  env :: "(string \<times> string option) list"

text \<open>A descriptor of the discovery response (\<^verbatim>\<open>tools_response.tools\<close>).\<close>

record mcp_tool =
  tool_name :: string
  tool_description :: "string option"
  inputSchema :: tool_schema

text \<open>The facade \<^verbatim>\<open>KeboolaMCPTool\<close>.\<close>

record keboola_mcp_tool =
  name :: string
  description :: string
  mcp_tool_name :: string
  mcp_tool_description :: string
  mcp_tool_schema :: tool_schema
  tool_server_params :: server_params

text \<open>
  Everything the tool server and the runtime decide is a field of the world:
  whether the calling thread has a running event loop; the outcome of starting the
  subprocess (\<^verbatim>\<open>stdio_client\<close>, \<^verbatim>\<open>ClientSession\<close>), of the handshake, of the discovery
  request, of a call request and of leaving the two \<^verbatim>\<open>async with\<close> blocks; whether
  constructing a facade object is rejected; and the time the session work takes when
  it ends, in milliseconds.
\<close>

record world =
  loop_running :: bool
  connect :: "unit outcome"
  initialize :: "unit outcome"
  list_tools :: "mcp_tool list outcome"
  call_tool :: "string \<Rightarrow> dict \<Rightarrow> call_tool_result outcome"
  close :: "unit outcome"
  reject_tool :: "keboola_mcp_tool \<Rightarrow> exn option"
  elapsed_ms :: nat

text \<open>
  Leaving the \<^verbatim>\<open>async with\<close> blocks, once their body has ended: an exception raised
  there replaces the outcome of the body.
\<close>

definition leave :: "world \<Rightarrow> 'a outcome \<Rightarrow> 'a outcome" where
  "leave w body =
     (case body of
        None \<Rightarrow> None
      | Some r \<Rightarrow>
          (case close w of
             None \<Rightarrow> None
           | Some (Inl e) \<Rightarrow> Some (Inl e)
           | Some (Inr u) \<Rightarrow> Some r))"

text \<open>Lines 153 to 167: one session for one call.\<close>

definition session_call :: "world \<Rightarrow> string \<Rightarrow> dict \<Rightarrow> string outcome" where
  "session_call w tname arguments =
     (case connect w of
        None \<Rightarrow> None
      | Some (Inl e) \<Rightarrow> Some (Inl e)
      | Some (Inr u) \<Rightarrow>
          leave w
            (case initialize w of
               None \<Rightarrow> None
             | Some (Inl e) \<Rightarrow> Some (Inl e)
             | Some (Inr u') \<Rightarrow>
                 (case call_tool w tname arguments of
                    None \<Rightarrow> None
                  | Some (Inl e) \<Rightarrow> Some (Inl e)
                  | Some (Inr result) \<Rightarrow> Some (Inr (extract_content result)))))"

text \<open>
  \<^verbatim>\<open>_arun_with_args\<close>: reconcile, call, and turn what \<^verbatim>\<open>except Exception\<close> catches
  into the error message of lines 169 to 175. An exception of another class leaves the
  function, and a session that never ends keeps it waiting.
\<close>

definition arun_with_args :: "world \<Rightarrow> keboola_mcp_tool \<Rightarrow> dict \<Rightarrow> string outcome" where
  "arun_with_args w t arguments =
     (case session_call w (mcp_tool_name t)
             (reconcile (get_properties (mcp_tool_schema t)) arguments) of
        None \<Rightarrow> None
      | Some (Inr s) \<Rightarrow> Some (Inr s)
      | Some (Inl e) \<Rightarrow>
          if is_Exception e
          then Some (Inr (''Error executing Keboola MCP tool '' @ mcp_tool_name t @ '': ''
                           @ str_exn e))
          else Some (Inl e))"

text \<open>\<^verbatim>\<open>_arun\<close>: no handler of its own around the decoding.\<close>

definition arun :: "pylib \<Rightarrow> world \<Rightarrow> keboola_mcp_tool \<Rightarrow> string \<Rightarrow> dict \<Rightarrow> string outcome" where
  "arun lib w t tool_input kwargs =
     (case decode_arguments lib tool_input kwargs of
        Inl e \<Rightarrow> Some (Inl e)
      | Inr arguments \<Rightarrow> arun_with_args w t arguments)"

section \<open>The execution bridge\<close>

text \<open>
  \<^verbatim>\<open>asyncio.get_running_loop()\<close> raises \<^verbatim>\<open>RuntimeError\<close> when the thread has no running
  loop; \<^verbatim>\<open>asyncio.run\<close> raises it when the thread has one, and otherwise runs the
  coroutine to its end, with no bound on the time.
\<close>

definition get_running_loop :: "world \<Rightarrow> exn + unit" where
  "get_running_loop w =
     (if loop_running w then Inr () else Inl (Exn RuntimeError ''no running event loop''))"

definition asyncio_run :: "world \<Rightarrow> 'a outcome \<Rightarrow> 'a outcome" where
  "asyncio_run w coro =
     (if loop_running w
      then Some (Inl (Exn RuntimeError
                        ''asyncio.run() cannot be called from a running event loop''))
      else coro)"

text \<open>
  The block \<^verbatim>\<open>with concurrent.futures.ThreadPoolExecutor() as executor\<close> of lines 77
  to 79: the worker thread runs the coroutine on a loop of its own;
  \<^verbatim>\<open>future.result(timeout=...)\<close> gives the worker's outcome, or raises a timeout error
  (whose \<^verbatim>\<open>str\<close> is empty) when the work takes longer than the timeout; and leaving the
  block waits for the worker thread to end, so a worker that never ends keeps the
  caller for ever.
\<close>

definition run_in_worker :: "world \<Rightarrow> nat \<Rightarrow> 'a outcome \<Rightarrow> 'a outcome" where
  "run_in_worker w timeout_ms coro =
     (case coro of
        None \<Rightarrow> None
      | Some r \<Rightarrow>
          if timeout_ms < elapsed_ms w then Some (Inl (Exn TimeoutError [])) else Some r)"

text \<open>
  Lines 63 to 83 of \<^verbatim>\<open>_run\<close>. The handler \<^verbatim>\<open>except RuntimeError\<close> covers the whole inner
  \<^verbatim>\<open>try\<close>, the worker path included.
\<close>

definition call_blocking :: "world \<Rightarrow> keboola_mcp_tool \<Rightarrow> dict \<Rightarrow> string outcome" where
  "call_blocking w t arguments =
     (let attempt =
            (case get_running_loop w of
               Inl e \<Rightarrow> Some (Inl e)
             | Inr u \<Rightarrow> run_in_worker w 30000 (arun_with_args w t arguments))
      in case attempt of
           None \<Rightarrow> None
         | Some (Inr s) \<Rightarrow> Some (Inr s)
         | Some (Inl e) \<Rightarrow>
             if exn_class_of e = RuntimeError
             then asyncio_run w (arun_with_args w t arguments)
             else Some (Inl e))"

text \<open>
  \<^verbatim>\<open>_run\<close>: the whole body is inside \<^verbatim>\<open>try ... except Exception\<close>, which returns the
  message of line 86 for the exceptions it catches.
\<close>

definition run :: "pylib \<Rightarrow> world \<Rightarrow> keboola_mcp_tool \<Rightarrow> string \<Rightarrow> dict \<Rightarrow> string outcome" where
  "run lib w t tool_input kwargs =
     (let body =
            (case decode_arguments lib tool_input kwargs of
               Inl e \<Rightarrow> Some (Inl e)
             | Inr arguments \<Rightarrow> call_blocking w t arguments)
      in case body of
           None \<Rightarrow> None
         | Some (Inr s) \<Rightarrow> Some (Inr s)
         | Some (Inl e) \<Rightarrow>
             if is_Exception e
             then Some (Inr (''Error running MCP tool '' @ mcp_tool_name t @ '': '' @ str_exn e))
             else Some (Inl e))"

section \<open>Discovery\<close>







section \<open>Configuration\<close>

text \<open>
  The process environment is a list of bindings; \<^verbatim>\<open>os.getenv(var)\<close> is a lookup and
  \<^verbatim>\<open>os.getenv(var, default)\<close> a lookup with a default.
\<close>

type_synonym environ = "(string \<times> string) list"

definition getenv :: "environ \<Rightarrow> string \<Rightarrow> string option" where
  "getenv environ var = map_of environ var"

definition getenv_default :: "environ \<Rightarrow> string \<Rightarrow> string \<Rightarrow> string" where
  "getenv_default environ var dflt = (case map_of environ var of None \<Rightarrow> dflt | Some v \<Rightarrow> v)"

text \<open>
  \<^verbatim>\<open>KeboolaDataAnalysisCrew.validate_environment\<close> in \<^verbatim>\<open>src/data_analysis_crew.py\<close>:
  \<^verbatim>\<open>not os.getenv(var)\<close> holds for an unset variable and for an empty one. The message
  of the \<^verbatim>\<open>ValueError\<close> formats the list of missing names as Python prints a list of
  strings.
\<close>

definition required_vars :: "string list" where
  "required_vars =
     [''OPENAI_API_KEY'', ''KBC_STORAGE_TOKEN'', ''KBC_WORKSPACE_SCHEMA'', ''KBC_STORAGE_API_URL'']"

definition unset :: "environ \<Rightarrow> string \<Rightarrow> bool" where
  "unset environ var = (case getenv environ var of None \<Rightarrow> True | Some v \<Rightarrow> v = [])"

definition repr_names :: "string list \<Rightarrow> string" where
  "repr_names vs = ''['' @ join '', '' (map (\<lambda>v. [CHR 0x27] @ v @ [CHR 0x27]) vs) @ '']''"

definition validate_environment :: "environ \<Rightarrow> exn + unit" where
  "validate_environment environ =
     (let missing_vars = filter (unset environ) required_vars
      in if missing_vars \<noteq> []
         then Inl (Exn ValueError (''Missing environment variables: '' @ repr_names missing_vars))
         else Inr ())"

text \<open>
  \<^verbatim>\<open>setup_mcp_toolset\<close>: a copy of the environment, updated with the three values read
  by \<^verbatim>\<open>os.getenv\<close> (an update keeps the position of a key that is present and appends a
  new one), and the command line of the tool server.
\<close>

record toolset =
  toolset_command :: string
  toolset_args :: "string option list"
  toolset_env :: "(string \<times> string option) list"

fun dict_update :: "(string \<times> 'v) list \<Rightarrow> string \<Rightarrow> 'v \<Rightarrow> (string \<times> 'v) list" where
  "dict_update [] k v = [(k, v)]"
| "dict_update ((k', v') # rest) k v =
     (if k' = k then (k, v) # rest else (k', v') # dict_update rest k v)"

definition setup_mcp_toolset :: "environ \<Rightarrow> toolset" where
  "setup_mcp_toolset environ =
     (let api_url = getenv environ ''KBC_STORAGE_API_URL'';
          storage_token = getenv environ ''KBC_STORAGE_TOKEN'';
          workspace_schema = getenv environ ''KBC_WORKSPACE_SCHEMA'';
          env0 = map (\<lambda>(k, v). (k, Some v)) environ;
          env1 = dict_update env0 ''KBC_STORAGE_API_URL'' api_url;
          env2 = dict_update env1 ''KBC_STORAGE_TOKEN'' storage_token;
          env3 = dict_update env2 ''KBC_WORKSPACE_SCHEMA'' workspace_schema
      in \<lparr> toolset_command = ''uvx'',
           toolset_args = [Some ''keboola_mcp_server'', Some ''--transport'', Some ''stdio'',
                           Some ''--log-level'', Some ''INFO'', Some ''--api-url'', api_url],
           toolset_env = env3 \<rparr>)"

text \<open>
  \<^verbatim>\<open>KeboolaDataAnalysisCrew.__init__\<close>: the validation runs first, and the toolset is
  set up only when it returned.
\<close>

definition KeboolaDataAnalysisCrew_init :: "environ \<Rightarrow> exn + toolset" where
  "KeboolaDataAnalysisCrew_init environ =
     (case validate_environment environ of
        Inl e \<Rightarrow> Inl e
      | Inr u \<Rightarrow> Inr (setup_mcp_toolset environ))"

text \<open>
  \<^verbatim>\<open>KeboolaMCPToolLoader.__init__\<close> has no check of its own: it hands the three
  lookups to the constructor of \<^verbatim>\<open>StdioServerParameters\<close>, a class of the \<^verbatim>\<open>mcp\<close>
  package. What that constructor accepts is not in the repository, so it is the
  parameter \<open>params_ctor\<close>, which returns the exception it raises, if any.
\<close>

definition loader_params :: "environ \<Rightarrow> server_params" where
  "loader_params environ =
     \<lparr> command = ''uvx'',
       args = [''--from'', ''keboola-mcp-server@1.0.0'', ''keboola-mcp-server''],
       env = [(''KBC_STORAGE_API_URL'', getenv environ ''KBC_STORAGE_API_URL''),
              (''KBC_STORAGE_TOKEN'', getenv environ ''KBC_STORAGE_TOKEN''),
              (''KBC_WORKSPACE_SCHEMA'',
                 Some (getenv_default environ ''KBC_WORKSPACE_SCHEMA'' []))] \<rparr>"

definition KeboolaMCPToolLoader_init ::
  "(server_params \<Rightarrow> exn option) \<Rightarrow> environ \<Rightarrow> exn + server_params" where
  "KeboolaMCPToolLoader_init params_ctor environ =
     (case params_ctor (loader_params environ) of
        Some e \<Rightarrow> Inl e
      | None \<Rightarrow> Inr (loader_params environ))"

section \<open>Properties of reconciliation\<close>

lemma first_string_param_in_keys:
  "first_string_param s = Some p \<Longrightarrow> p \<in> set (keys s)"
  by (induction s rule: first_string_param.induct) (auto simp: keys_def split: if_splits)

lemma keys_filter_subset:
  "set (keys (filter (\<lambda>(k, v). k \<in> A) d)) \<subseteq> A"
  by (auto simp: keys_def)

lemma reconcile_subset:
  assumes ne: "schema_properties \<noteq> []"
  shows "set (keys (reconcile schema_properties arguments)) \<subseteq> set (keys schema_properties)"
proof -
  define args0 where "args0 =
    (if arguments = [] \<and> ''random_string'' \<in> set (keys schema_properties)
     then [(''random_string'', PStr ''dummy'')] else arguments)"
  define filtered where
    "filtered = filter (\<lambda>(k, v). k \<in> set (keys schema_properties)) args0"
  have sub: "set (keys filtered) \<subseteq> set (keys schema_properties)"
    unfolding filtered_def by (rule keys_filter_subset)
  have "reconcile schema_properties arguments = filtered
      \<or> (\<exists>p q. first_string_param schema_properties = Some p
            \<and> reconcile schema_properties arguments = [(p, q)])"
    using ne unfolding reconcile_def Let_def args0_def [symmetric] filtered_def [symmetric]
    by (simp split: option.splits)
  then show ?thesis
  proof
    assume "reconcile schema_properties arguments = filtered"
    with sub show ?thesis by simp
  next
    assume "\<exists>p q. first_string_param schema_properties = Some p
            \<and> reconcile schema_properties arguments = [(p, q)]"
    then obtain p q where "first_string_param schema_properties = Some p"
      and "reconcile schema_properties arguments = [(p, q)]" by blast
    then show ?thesis
      using first_string_param_in_keys [of schema_properties p] by (simp add: keys_def)
  qed
qed

lemma reconcile_no_schema: "reconcile [] arguments = arguments"
  by (simp add: reconcile_def keys_def)

text \<open>
  Claim C1. Against a schema that declares at least one parameter, the reconciled
  mapping has only keys that the schema declares, whichever rule produced them; against
  an absent or empty schema the payload is returned as it is.
\<close>

theorem reconcile_keys_declared:
  "(schema_properties \<noteq> [] \<longrightarrow>
      set (keys (reconcile schema_properties arguments)) \<subseteq> set (keys schema_properties))
   \<and> reconcile (get_properties None) arguments = arguments
   \<and> reconcile (get_properties (Some [])) arguments = arguments"
  by (simp add: reconcile_subset reconcile_no_schema get_properties_def)

theorem reconcile_keys_declared_witness:
  "[(''text'', PDict [(''type'', PStr ''string'')])] \<noteq> []
   \<and> set (keys (reconcile [(''text'', PDict [(''type'', PStr ''string'')])]
                      [(''text'', PStr ''hello''), (''limit'', PInt 5)]))
       \<subseteq> set (keys [(''text'', PDict [(''type'', PStr ''string'')])])
   \<and> reconcile [(''text'', PDict [(''type'', PStr ''string'')])]
                  [(''text'', PStr ''hello''), (''limit'', PInt 5)]
       = [(''text'', PStr ''hello'')]"
  using reconcile_keys_declared
    [of "[(''text'', PDict [(''type'', PStr ''string'')])]"
        "[(''text'', PStr ''hello''), (''limit'', PInt 5)]"]
  by (simp add: reconcile_def keys_def)

text \<open>
  Claim C2, as the code has it. The placeholder hint is the schema declaring the
  parameter \<^verbatim>\<open>random_string\<close>, and the source synthesises the filler only
  \<^verbatim>\<open>if not arguments\<close>: for the empty payload the result is exactly the placeholder key
  bound to \<^verbatim>\<open>"dummy"\<close>.
\<close>

theorem reconcile_placeholder_empty_payload:
  "''random_string'' \<in> set (keys schema_properties) \<Longrightarrow>
     reconcile schema_properties [] = [(''random_string'', PStr ''dummy'')]"
proof -
  assume hint: "''random_string'' \<in> set (keys schema_properties)"
  then have ne: "schema_properties \<noteq> []" by (auto simp: keys_def)
  from hint ne show ?thesis
    by (simp add: reconcile_def)
qed

theorem reconcile_placeholder_empty_payload_witness:
  "''random_string'' \<in> set (keys [(''random_string'', PDict [(''type'', PStr ''string'')])])
   \<and> reconcile [(''random_string'', PDict [(''type'', PStr ''string'')])] []
       = [(''random_string'', PStr ''dummy'')]"
  using reconcile_placeholder_empty_payload
    [of "[(''random_string'', PDict [(''type'', PStr ''string'')])]"]
  by (simp add: keys_def)

text \<open>
  Claim C2 as stated fails for a non-empty payload: against a schema whose only
  parameter is the placeholder, a payload with an undeclared key reconciles to the
  empty mapping, and a payload that binds the placeholder keeps the caller's value.
\<close>

theorem reconcile_placeholder_any_payload_counterexample:
  "''random_string'' \<in> set (keys [(''random_string'', PDict [(''type'', PStr ''string'')])])
   \<and> reconcile [(''random_string'', PDict [(''type'', PStr ''string'')])]
                  [(''limit'', PInt 5)] = []
   \<and> reconcile [(''random_string'', PDict [(''type'', PStr ''string'')])]
                  [(''random_string'', PStr ''abc'')] = [(''random_string'', PStr ''abc'')]
   \<and> reconcile [(''random_string'', PDict [(''type'', PStr ''string'')])]
                  [(''limit'', PInt 5)] \<noteq> [(''random_string'', PStr ''dummy'')]"
  by (simp add: reconcile_def keys_def)

lemma first_string_param_split:
  "\<forall>(k, d') \<in> set pre. \<not> is_string_def d' \<Longrightarrow> is_string_def d \<Longrightarrow>
     first_string_param (pre @ (p, d) # post) = Some p"
  by (induction pre) auto

text \<open>
  Claim C3. The payload is the free-text form \<open>{query: x}\<close>; the schema declares no
  parameter named \<^verbatim>\<open>query\<close>, and \<open>p\<close> is its first string-typed parameter: every
  parameter declared before \<open>p\<close> is not string-typed. Then the reconciled mapping is
  the single entry that binds \<open>x\<close> to \<open>p\<close>.
\<close>

theorem reconcile_query_fallback:
  assumes nq: "''query'' \<notin> set (keys schema_properties)"
    and split: "schema_properties = pre @ (p, d) # post"
    and pre: "\<forall>(k, d') \<in> set pre. \<not> is_string_def d'"
    and d: "is_string_def d"
  shows "reconcile schema_properties [(''query'', x)] = [(p, x)]"
proof -
  have ne: "schema_properties \<noteq> []" using split by simp
  have fsp: "first_string_param schema_properties = Some p"
    unfolding split using pre d by (rule first_string_param_split)
  show ?thesis using nq ne fsp by (simp add: reconcile_def)
qed

theorem reconcile_query_fallback_witness:
  "reconcile [(''limit'', PDict [(''type'', PStr ''integer'')]),
              (''text'', PDict [(''type'', PStr ''string'')]),
              (''note'', PDict [(''type'', PStr ''string'')])]
             [(''query'', PStr ''hello'')]
   = [(''text'', PStr ''hello'')]"
proof -
  have nq: "''query'' \<notin> set (keys [(''limit'', PDict [(''type'', PStr ''integer'')]),
              (''text'', PDict [(''type'', PStr ''string'')]),
              (''note'', PDict [(''type'', PStr ''string'')])])"
    by (simp add: keys_def)
  have split: "[(''limit'', PDict [(''type'', PStr ''integer'')]),
              (''text'', PDict [(''type'', PStr ''string'')]),
              (''note'', PDict [(''type'', PStr ''string'')])]
     = [(''limit'', PDict [(''type'', PStr ''integer'')])]
       @ (''text'', PDict [(''type'', PStr ''string'')])
       # [(''note'', PDict [(''type'', PStr ''string'')])]"
    by simp
  have pre: "\<forall>(k, d') \<in> set [(''limit'', PDict [(''type'', PStr ''integer'')])].
               \<not> is_string_def d'"
    by simp
  have d: "is_string_def (PDict [(''type'', PStr ''string'')])"
    by simp
  show ?thesis
    by (rule reconcile_query_fallback [OF nq split pre d])
qed

lemma reconcile_fixed:
  assumes sub: "set (keys r) \<subseteq> set (keys s)"
    and ok: "r \<noteq> [] \<or> ''random_string'' \<notin> set (keys s)"
  shows "reconcile s r = r"
proof (cases "s = []")
  case True
  then show ?thesis by (simp add: reconcile_no_schema)
next
  case False
  have all: "filter (\<lambda>(k, v). k \<in> set (keys s)) r = r"
    using sub by (force simp: keys_def filter_id_conv)
  show ?thesis
  proof (cases "r = []")
    case True
    with ok False show ?thesis by (simp add: reconcile_def)
  next
    case ner: False
    with False all show ?thesis by (simp add: reconcile_def)
  qed
qed

text \<open>
  Claim C4, as the code has it. Reconciling a reconciled mapping again returns it
  unchanged whenever the schema does not declare \<^verbatim>\<open>random_string\<close> or the first
  result is not empty.
\<close>

theorem reconcile_idempotent:
  assumes "''random_string'' \<notin> set (keys s) \<or> reconcile s p \<noteq> []"
  shows "reconcile s (reconcile s p) = reconcile s p"
proof (cases "s = []")
  case True
  then show ?thesis by (simp add: reconcile_no_schema)
next
  case False
  then have "set (keys (reconcile s p)) \<subseteq> set (keys s)" by (rule reconcile_subset)
  then show ?thesis using assms by (intro reconcile_fixed) auto
qed

theorem reconcile_idempotent_witness:
  "reconcile [(''text'', PDict [(''type'', PStr ''string'')])]
             [(''text'', PStr ''hello''), (''limit'', PInt 5)] \<noteq> []
   \<and> reconcile [(''text'', PDict [(''type'', PStr ''string'')])]
        (reconcile [(''text'', PDict [(''type'', PStr ''string'')])]
                   [(''text'', PStr ''hello''), (''limit'', PInt 5)])
     = reconcile [(''text'', PDict [(''type'', PStr ''string'')])]
                 [(''text'', PStr ''hello''), (''limit'', PInt 5)]"
proof -
  have ne: "reconcile [(''text'', PDict [(''type'', PStr ''string'')])]
             [(''text'', PStr ''hello''), (''limit'', PInt 5)] \<noteq> []"
    by (simp add: reconcile_def keys_def)
  then have "''random_string'' \<notin> set (keys [(''text'', PDict [(''type'', PStr ''string'')])])
     \<or> reconcile [(''text'', PDict [(''type'', PStr ''string'')])]
             [(''text'', PStr ''hello''), (''limit'', PInt 5)] \<noteq> []"
    by (rule disjI2)
  from ne reconcile_idempotent [OF this] show ?thesis by (rule conjI)
qed

text \<open>
  Claim C4 as stated fails where the schema declares \<^verbatim>\<open>random_string\<close> and the
  first result is empty: the payload \<open>{limit: 5}\<close> reconciles to the empty mapping, and
  the empty mapping reconciles to the placeholder.
\<close>

theorem reconcile_idempotent_counterexample:
  "reconcile [(''random_string'', PDict [(''type'', PStr ''string'')])] [(''limit'', PInt 5)]
     = []
   \<and> reconcile [(''random_string'', PDict [(''type'', PStr ''string'')])]
        (reconcile [(''random_string'', PDict [(''type'', PStr ''string'')])]
                   [(''limit'', PInt 5)])
     = [(''random_string'', PStr ''dummy'')]
   \<and> reconcile [(''random_string'', PDict [(''type'', PStr ''string'')])]
        (reconcile [(''random_string'', PDict [(''type'', PStr ''string'')])]
                   [(''limit'', PInt 5)])
     \<noteq> reconcile [(''random_string'', PDict [(''type'', PStr ''string'')])]
                 [(''limit'', PInt 5)]"
  by (simp add: reconcile_def keys_def)

section \<open>Properties of the facade, the bridge and the loader\<close>

lemma arun_with_args_raises:
  "arun_with_args w t a = Some (Inl e) \<Longrightarrow> \<not> is_Exception e"
  by (simp add: arun_with_args_def split: option.splits sum.splits if_splits)

lemma RuntimeError_is_Exception: "exn_class_of e = RuntimeError \<Longrightarrow> is_Exception e"
  by (simp add: is_Exception_def)

lemma session_call_loop_running:
  "session_call (w\<lparr>loop_running := b\<rparr>) n a = session_call w n a"
  by (simp add: session_call_def leave_def split: option.split sum.split)

lemma arun_with_args_loop_running:
  "arun_with_args (w\<lparr>loop_running := b\<rparr>) t a = arun_with_args w t a"
  by (simp only: arun_with_args_def session_call_loop_running)

text \<open>
  The bridge in terms of the suspending operation: its outcome, except that the
  worker path gives a timeout error when the operation ends after more than 30
  seconds.
\<close>

lemma call_blocking_value:
  "call_blocking w t a =
     (case arun_with_args w t a of
        None \<Rightarrow> None
      | Some r \<Rightarrow>
          if loop_running w \<and> 30000 < elapsed_ms w
          then Some (Inl (Exn TimeoutError [])) else Some r)"
proof (cases "arun_with_args w t a")
  case None
  then show ?thesis
    by (simp add: call_blocking_def get_running_loop_def run_in_worker_def asyncio_run_def)
next
  case (Some r)
  show ?thesis
  proof (cases r)
    case (Inr s)
    with Some show ?thesis
      by (simp add: call_blocking_def get_running_loop_def run_in_worker_def asyncio_run_def)
  next
    case (Inl e)
    with Some have "\<not> is_Exception e" by (simp add: arun_with_args_raises)
    then have "exn_class_of e \<noteq> RuntimeError" using RuntimeError_is_Exception by blast
    with Some Inl show ?thesis
      by (simp add: call_blocking_def get_running_loop_def run_in_worker_def asyncio_run_def)
  qed
qed

text \<open>
  Claim C5, as the code has it. When the decoding and the session raise only
  exceptions below \<^verbatim>\<open>Exception\<close> and the session ends, \<^verbatim>\<open>_run\<close> returns a string and
  raises nothing: the diagnostic of line 86 with the exception's text when the
  decoding raised, the same diagnostic with an empty text when the worker path timed
  out, the diagnostic of line 170 with the exception's text when the session raised,
  and the session's text when it succeeded. Both diagnostics name the operation.
\<close>

theorem run_returns_text:
  assumes dec: "\<forall>e. decode_arguments lib tool_input kwargs = Inl e \<longrightarrow> is_Exception e"
    and ses: "\<forall>a. decode_arguments lib tool_input kwargs = Inr a \<longrightarrow>
               (\<exists>r. session_call w (mcp_tool_name t)
                       (reconcile (get_properties (mcp_tool_schema t)) a) = Some r
                    \<and> (\<forall>e. r = Inl e \<longrightarrow> is_Exception e))"
  shows "(\<exists>s. run lib w t tool_input kwargs = Some (Inr s))
     \<and> (\<forall>e. decode_arguments lib tool_input kwargs = Inl e \<longrightarrow>
           run lib w t tool_input kwargs
             = Some (Inr (''Error running MCP tool '' @ mcp_tool_name t @ '': '' @ str_exn e)))
     \<and> (\<forall>a. decode_arguments lib tool_input kwargs = Inr a
             \<and> loop_running w \<and> 30000 < elapsed_ms w \<longrightarrow>
           run lib w t tool_input kwargs
             = Some (Inr (''Error running MCP tool '' @ mcp_tool_name t @ '': '')))
     \<and> (\<forall>a e. decode_arguments lib tool_input kwargs = Inr a
             \<and> \<not> (loop_running w \<and> 30000 < elapsed_ms w)
             \<and> session_call w (mcp_tool_name t)
                  (reconcile (get_properties (mcp_tool_schema t)) a) = Some (Inl e) \<longrightarrow>
           run lib w t tool_input kwargs
             = Some (Inr (''Error executing Keboola MCP tool '' @ mcp_tool_name t @ '': ''
                          @ str_exn e)))
     \<and> (\<forall>a s. decode_arguments lib tool_input kwargs = Inr a
             \<and> \<not> (loop_running w \<and> 30000 < elapsed_ms w)
             \<and> session_call w (mcp_tool_name t)
                  (reconcile (get_properties (mcp_tool_schema t)) a) = Some (Inr s) \<longrightarrow>
           run lib w t tool_input kwargs = Some (Inr s))"
proof (cases "decode_arguments lib tool_input kwargs")
  case (Inl e)
  with dec have "is_Exception e" by blast
  with Inl have "run lib w t tool_input kwargs
      = Some (Inr (''Error running MCP tool '' @ mcp_tool_name t @ '': '' @ str_exn e))"
    by (simp add: run_def)
  with Inl show ?thesis by simp
next
  case (Inr a)
  with ses obtain r where r: "session_call w (mcp_tool_name t)
      (reconcile (get_properties (mcp_tool_schema t)) a) = Some r"
    and exc: "\<forall>e. r = Inl e \<longrightarrow> is_Exception e"
    by blast
  show ?thesis
  proof (cases "loop_running w \<and> 30000 < elapsed_ms w")
    case True
    with Inr r exc have "run lib w t tool_input kwargs
        = Some (Inr (''Error running MCP tool '' @ mcp_tool_name t @ '': ''))"
      by (cases r) (simp_all add: run_def call_blocking_value arun_with_args_def
            is_Exception_def)
    with Inr True show ?thesis by auto
  next
    case False
    show ?thesis
    proof (cases r)
      case (Inl e)
      with exc have "is_Exception e" by blast
      with Inr r Inl False have "run lib w t tool_input kwargs
          = Some (Inr (''Error executing Keboola MCP tool '' @ mcp_tool_name t @ '': ''
                       @ str_exn e))"
        by (simp add: run_def call_blocking_value arun_with_args_def)
      with Inr r Inl False show ?thesis by auto
    next
      case inr: (Inr s)
      with Inr r False have "run lib w t tool_input kwargs = Some (Inr s)"
        by (auto simp: run_def call_blocking_value arun_with_args_def)
      with Inr r inr False show ?thesis by auto
    qed
  qed
qed

theorem run_returns_text_witness:
  "run \<lparr>json_loads = (\<lambda>s. Inl (Exn JSONDecodeError ''Expecting value'')), py_str = (\<lambda>v. [])\<rparr>
     \<lparr>loop_running = False, connect = Some (Inr ()), initialize = Some (Inr ()),
     list_tools = Some (Inr []),
     call_tool = (\<lambda>n a. Some (Inl (Exn OtherError ''connection closed''))),
     close = Some (Inr ()), reject_tool = (\<lambda>t. None),
     elapsed_ms = 1200\<rparr>
     \<lparr>name = ''keboola_echo'', description = ''Keboola MCP Tool: Echo'',
     mcp_tool_name = ''echo'', mcp_tool_description = ''Echo'',
     mcp_tool_schema = Some [(''text'', PDict [(''type'', PStr ''string'')])],
     tool_server_params = \<lparr>command = ''uvx'', args = [], env = []\<rparr>\<rparr>
     ''hello'' []
   = Some (Inr ''Error executing Keboola MCP tool echo: connection closed'')"
proof -
  let ?lib = "\<lparr>json_loads = (\<lambda>s. Inl (Exn JSONDecodeError ''Expecting value'')), py_str = (\<lambda>v. [])\<rparr>"
  let ?w = "\<lparr>loop_running = False, connect = Some (Inr ()), initialize = Some (Inr ()),
            list_tools = Some (Inr []),
            call_tool = (\<lambda>n a. Some (Inl (Exn OtherError ''connection closed''))),
            close = Some (Inr ()), reject_tool = (\<lambda>t. None),
            elapsed_ms = 1200\<rparr>"
  let ?t = "\<lparr>name = ''keboola_echo'', description = ''Keboola MCP Tool: Echo'',
            mcp_tool_name = ''echo'', mcp_tool_description = ''Echo'',
            mcp_tool_schema = Some [(''text'', PDict [(''type'', PStr ''string'')])],
            tool_server_params = \<lparr>command = ''uvx'', args = [], env = []\<rparr>\<rparr>"
  have d: "decode_arguments ?lib ''hello'' [] = Inr [(''query'', PStr ''hello'')]"
    by (simp add: decode_arguments_def drop_none_def)
  have s: "session_call ?w (mcp_tool_name ?t)
             (reconcile (get_properties (mcp_tool_schema ?t)) [(''query'', PStr ''hello'')])
           = Some (Inl (Exn OtherError ''connection closed''))"
    by (simp add: session_call_def leave_def)
  have dec: "\<forall>e. decode_arguments ?lib ''hello'' [] = Inl e \<longrightarrow> is_Exception e"
    by (simp add: d)
  have ses: "\<forall>a. decode_arguments ?lib ''hello'' [] = Inr a \<longrightarrow>
               (\<exists>r. session_call ?w (mcp_tool_name ?t)
                       (reconcile (get_properties (mcp_tool_schema ?t)) a) = Some r
                    \<and> (\<forall>e. r = Inl e \<longrightarrow> is_Exception e))"
    using s by (simp add: d is_Exception_def)
  from run_returns_text [OF dec ses] d s show ?thesis
    by simp
qed

text \<open>
  Claim C5 as stated fails in two ways. A session that raises
  \<^verbatim>\<open>asyncio.CancelledError\<close>, which is not below \<^verbatim>\<open>Exception\<close>, passes both handlers and
  \<^verbatim>\<open>_run\<close> raises it; and with a session that never answers, \<^verbatim>\<open>asyncio.run\<close> on the
  sequential path never returns.
\<close>

theorem run_propagates_counterexample:
  "run \<lparr>json_loads = (\<lambda>s. Inl (Exn JSONDecodeError ''Expecting value'')), py_str = (\<lambda>v. [])\<rparr>
     \<lparr>loop_running = False, connect = Some (Inr ()), initialize = Some (Inr ()),
     list_tools = Some (Inr []),
     call_tool = (\<lambda>n a. Some (Inl (Exn CancelledError []))),
     close = Some (Inr ()), reject_tool = (\<lambda>t. None),
     elapsed_ms = 1200\<rparr>
     \<lparr>name = ''keboola_echo'', description = ''Keboola MCP Tool: Echo'',
     mcp_tool_name = ''echo'', mcp_tool_description = ''Echo'',
     mcp_tool_schema = Some [(''text'', PDict [(''type'', PStr ''string'')])],
     tool_server_params = \<lparr>command = ''uvx'', args = [], env = []\<rparr>\<rparr>
     ''hello'' []
   = Some (Inl (Exn CancelledError []))
   \<and> run \<lparr>json_loads = (\<lambda>s. Inl (Exn JSONDecodeError ''Expecting value'')), py_str = (\<lambda>v. [])\<rparr>
     \<lparr>loop_running = False, connect = Some (Inr ()), initialize = Some (Inr ()),
     list_tools = Some (Inr []),
     call_tool = (\<lambda>n a. None),
     close = Some (Inr ()), reject_tool = (\<lambda>t. None),
     elapsed_ms = 1200\<rparr>
     \<lparr>name = ''keboola_echo'', description = ''Keboola MCP Tool: Echo'',
     mcp_tool_name = ''echo'', mcp_tool_description = ''Echo'',
     mcp_tool_schema = Some [(''text'', PDict [(''type'', PStr ''string'')])],
     tool_server_params = \<lparr>command = ''uvx'', args = [], env = []\<rparr>\<rparr>
     ''hello'' []
   = None"
  by (simp add: run_def decode_arguments_def drop_none_def is_Exception_def
        call_blocking_def get_running_loop_def run_in_worker_def asyncio_run_def
        arun_with_args_def session_call_def leave_def extract_content_def reconcile_def
        get_properties_def keys_def)

lemma call_blocking_sequential:
  "call_blocking (w\<lparr>loop_running := False\<rparr>) t a = arun_with_args w t a"
  by (simp add: call_blocking_value arun_with_args_loop_running split: option.split)

lemma call_blocking_in_loop:
  "elapsed_ms w \<le> 30000 \<Longrightarrow>
     call_blocking (w\<lparr>loop_running := True\<rparr>) t a = arun_with_args w t a"
  by (simp add: call_blocking_value arun_with_args_loop_running split: option.split)

text \<open>
  Claim C6, as the code has it. When the suspending operation finishes within the
  30 seconds that the worker path waits for it, the bridge returns the same result
  from a thread with a running event loop as from a thread without one, and so does
  \<^verbatim>\<open>_run\<close>.
\<close>

theorem call_blocking_paths_agree:
  assumes "elapsed_ms w \<le> 30000"
  shows "call_blocking (w\<lparr>loop_running := True\<rparr>) t arguments
           = call_blocking (w\<lparr>loop_running := False\<rparr>) t arguments
       \<and> run lib (w\<lparr>loop_running := True\<rparr>) t tool_input kwargs
           = run lib (w\<lparr>loop_running := False\<rparr>) t tool_input kwargs"
proof -
  have cb: "call_blocking (w\<lparr>loop_running := True\<rparr>) t a
            = call_blocking (w\<lparr>loop_running := False\<rparr>) t a" for a
    using assms by (simp only: call_blocking_in_loop call_blocking_sequential)
  show ?thesis
    by (simp only: cb run_def simp_thms)
qed

theorem call_blocking_paths_agree_witness:
  "elapsed_ms
     \<lparr>loop_running = False, connect = Some (Inr ()), initialize = Some (Inr ()),
     list_tools = Some (Inr []),
     call_tool = (\<lambda>n a. Some (Inr \<lparr>content = Some (ContentList [WithText ''hello'']),
                                         result_str = ''ok''\<rparr>)),
     close = Some (Inr ()), reject_tool = (\<lambda>t. None),
     elapsed_ms = 1200\<rparr> \<le> 30000
   \<and> call_blocking
     \<lparr>loop_running = True, connect = Some (Inr ()), initialize = Some (Inr ()),
     list_tools = Some (Inr []),
     call_tool = (\<lambda>n a. Some (Inr \<lparr>content = Some (ContentList [WithText ''hello'']),
                                         result_str = ''ok''\<rparr>)),
     close = Some (Inr ()), reject_tool = (\<lambda>t. None),
     elapsed_ms = 1200\<rparr>
     \<lparr>name = ''keboola_echo'', description = ''Keboola MCP Tool: Echo'',
     mcp_tool_name = ''echo'', mcp_tool_description = ''Echo'',
     mcp_tool_schema = Some [(''text'', PDict [(''type'', PStr ''string'')])],
     tool_server_params = \<lparr>command = ''uvx'', args = [], env = []\<rparr>\<rparr>
     [(''text'', PStr ''hello'')] = Some (Inr ''hello'')
   \<and> call_blocking
     \<lparr>loop_running = False, connect = Some (Inr ()), initialize = Some (Inr ()),
     list_tools = Some (Inr []),
     call_tool = (\<lambda>n a. Some (Inr \<lparr>content = Some (ContentList [WithText ''hello'']),
                                         result_str = ''ok''\<rparr>)),
     close = Some (Inr ()), reject_tool = (\<lambda>t. None),
     elapsed_ms = 1200\<rparr>
     \<lparr>name = ''keboola_echo'', description = ''Keboola MCP Tool: Echo'',
     mcp_tool_name = ''echo'', mcp_tool_description = ''Echo'',
     mcp_tool_schema = Some [(''text'', PDict [(''type'', PStr ''string'')])],
     tool_server_params = \<lparr>command = ''uvx'', args = [], env = []\<rparr>\<rparr>
     [(''text'', PStr ''hello'')] = Some (Inr ''hello'')"
  using call_blocking_paths_agree
    [of "\<lparr>loop_running = False, connect = Some (Inr ()), initialize = Some (Inr ()),
         list_tools = Some (Inr []),
         call_tool = (\<lambda>n a. Some (Inr \<lparr>content = Some (ContentList [WithText ''hello'']),
                                             result_str = ''ok''\<rparr>)),
         close = Some (Inr ()), reject_tool = (\<lambda>t. None),
         elapsed_ms = 1200\<rparr>"
        "\<lparr>name = ''keboola_echo'', description = ''Keboola MCP Tool: Echo'',
         mcp_tool_name = ''echo'', mcp_tool_description = ''Echo'',
         mcp_tool_schema = Some [(''text'', PDict [(''type'', PStr ''string'')])],
         tool_server_params = \<lparr>command = ''uvx'', args = [], env = []\<rparr>\<rparr>"
        "[(''text'', PStr ''hello'')]"
        "\<lparr>json_loads = (\<lambda>s. Inl (Exn JSONDecodeError ''Expecting value'')), py_str = (\<lambda>v. [])\<rparr>" "''hello''" "[]"]
  by (simp add: call_blocking_def get_running_loop_def run_in_worker_def asyncio_run_def
        arun_with_args_def session_call_def leave_def extract_content_def reconcile_def
        get_properties_def keys_def)

text \<open>
  Claim C6 as stated fails when the operation takes longer than 30 seconds: with a
  session that answers \<open>hello\<close> after 31 seconds, the path for a running event loop
  gives up with a timeout, which \<^verbatim>\<open>_run\<close> returns as a diagnostic, and the
  sequential path returns the answer.
\<close>

theorem call_blocking_paths_counterexample:
  "call_blocking
     \<lparr>loop_running = True, connect = Some (Inr ()), initialize = Some (Inr ()),
     list_tools = Some (Inr []),
     call_tool = (\<lambda>n a. Some (Inr \<lparr>content = Some (ContentList [WithText ''hello'']),
                                         result_str = ''ok''\<rparr>)),
     close = Some (Inr ()), reject_tool = (\<lambda>t. None),
     elapsed_ms = 31000\<rparr>
     \<lparr>name = ''keboola_echo'', description = ''Keboola MCP Tool: Echo'',
     mcp_tool_name = ''echo'', mcp_tool_description = ''Echo'',
     mcp_tool_schema = Some [(''text'', PDict [(''type'', PStr ''string'')])],
     tool_server_params = \<lparr>command = ''uvx'', args = [], env = []\<rparr>\<rparr>
     [(''text'', PStr ''hello'')] = Some (Inl (Exn TimeoutError []))
   \<and> call_blocking
     \<lparr>loop_running = False, connect = Some (Inr ()), initialize = Some (Inr ()),
     list_tools = Some (Inr []),
     call_tool = (\<lambda>n a. Some (Inr \<lparr>content = Some (ContentList [WithText ''hello'']),
                                         result_str = ''ok''\<rparr>)),
     close = Some (Inr ()), reject_tool = (\<lambda>t. None),
     elapsed_ms = 31000\<rparr>
     \<lparr>name = ''keboola_echo'', description = ''Keboola MCP Tool: Echo'',
     mcp_tool_name = ''echo'', mcp_tool_description = ''Echo'',
     mcp_tool_schema = Some [(''text'', PDict [(''type'', PStr ''string'')])],
     tool_server_params = \<lparr>command = ''uvx'', args = [], env = []\<rparr>\<rparr>
     [(''text'', PStr ''hello'')] = Some (Inr ''hello'')
   \<and> run \<lparr>json_loads = (\<lambda>s. Inl (Exn JSONDecodeError ''Expecting value'')), py_str = (\<lambda>v. [])\<rparr>
     \<lparr>loop_running = True, connect = Some (Inr ()), initialize = Some (Inr ()),
     list_tools = Some (Inr []),
     call_tool = (\<lambda>n a. Some (Inr \<lparr>content = Some (ContentList [WithText ''hello'']),
                                         result_str = ''ok''\<rparr>)),
     close = Some (Inr ()), reject_tool = (\<lambda>t. None),
     elapsed_ms = 31000\<rparr>
     \<lparr>name = ''keboola_echo'', description = ''Keboola MCP Tool: Echo'',
     mcp_tool_name = ''echo'', mcp_tool_description = ''Echo'',
     mcp_tool_schema = Some [(''text'', PDict [(''type'', PStr ''string'')])],
     tool_server_params = \<lparr>command = ''uvx'', args = [], env = []\<rparr>\<rparr>
     ''hello'' [] = Some (Inr ''Error running MCP tool echo: '')
   \<and> run \<lparr>json_loads = (\<lambda>s. Inl (Exn JSONDecodeError ''Expecting value'')), py_str = (\<lambda>v. [])\<rparr>
     \<lparr>loop_running = False, connect = Some (Inr ()), initialize = Some (Inr ()),
     list_tools = Some (Inr []),
     call_tool = (\<lambda>n a. Some (Inr \<lparr>content = Some (ContentList [WithText ''hello'']),
                                         result_str = ''ok''\<rparr>)),
     close = Some (Inr ()), reject_tool = (\<lambda>t. None),
     elapsed_ms = 31000\<rparr>
     \<lparr>name = ''keboola_echo'', description = ''Keboola MCP Tool: Echo'',
     mcp_tool_name = ''echo'', mcp_tool_description = ''Echo'',
     mcp_tool_schema = Some [(''text'', PDict [(''type'', PStr ''string'')])],
     tool_server_params = \<lparr>command = ''uvx'', args = [], env = []\<rparr>\<rparr>
     ''hello'' [] = Some (Inr ''hello'')"
  by (simp add: run_def decode_arguments_def drop_none_def is_Exception_def
        call_blocking_def get_running_loop_def run_in_worker_def asyncio_run_def
        arun_with_args_def session_call_def leave_def extract_content_def reconcile_def
        get_properties_def keys_def)






text \<open>
  Claim C9, as the code has it. When the session succeeds and the result carries a
  non-empty list of content parts, the string returned is the parts' strings joined
  with newline characters in the order of the list; the string of a part is its text,
  or \<^verbatim>\<open>str(item)\<close> for a part with no \<^verbatim>\<open>text\<close> attribute.
\<close>

theorem arun_with_args_joins_parts:
  assumes "connect w = Some (Inr ())" and "initialize w = Some (Inr ())"
    and "close w = Some (Inr ())"
    and "call_tool w (mcp_tool_name t) (reconcile (get_properties (mcp_tool_schema t)) arguments)
           = Some (Inr result)"
    and "content result = Some (ContentList items)"
    and "items \<noteq> []"
  shows "arun_with_args w t arguments = Some (Inr (join newline (map item_str items)))"
  using assms by (simp add: arun_with_args_def session_call_def leave_def extract_content_def)

theorem arun_with_args_joins_parts_witness:
  "arun_with_args
     \<lparr>loop_running = False, connect = Some (Inr ()), initialize = Some (Inr ()),
     list_tools = Some (Inr []),
     call_tool = (\<lambda>n a. Some (Inr \<lparr>content = Some (ContentList [WithText ''id,name'', WithText ''1,Ada'']),
                                         result_str = ''ok''\<rparr>)),
     close = Some (Inr ()), reject_tool = (\<lambda>t. None),
     elapsed_ms = 1200\<rparr>
     \<lparr>name = ''keboola_echo'', description = ''Keboola MCP Tool: Echo'',
     mcp_tool_name = ''echo'', mcp_tool_description = ''Echo'',
     mcp_tool_schema = Some [(''text'', PDict [(''type'', PStr ''string'')])],
     tool_server_params = \<lparr>command = ''uvx'', args = [], env = []\<rparr>\<rparr>
     [(''text'', PStr ''hello'')] = Some (Inr (''id,name'' @ [CHR 0x0A] @ ''1,Ada''))"
proof -
  let ?w = "\<lparr>loop_running = False, connect = Some (Inr ()), initialize = Some (Inr ()),
            list_tools = Some (Inr []),
            call_tool = (\<lambda>n a. Some (Inr \<lparr>content = Some (ContentList [WithText ''id,name'', WithText ''1,Ada'']),
                                                result_str = ''ok''\<rparr>)),
            close = Some (Inr ()), reject_tool = (\<lambda>t. None),
            elapsed_ms = 1200\<rparr>"
  let ?t = "\<lparr>name = ''keboola_echo'', description = ''Keboola MCP Tool: Echo'',
            mcp_tool_name = ''echo'', mcp_tool_description = ''Echo'',
            mcp_tool_schema = Some [(''text'', PDict [(''type'', PStr ''string'')])],
            tool_server_params = \<lparr>command = ''uvx'', args = [], env = []\<rparr>\<rparr>"
  let ?r = "\<lparr>content = Some (ContentList [WithText ''id,name'', WithText ''1,Ada'']),
      result_str = ''ok''\<rparr>"
  have "arun_with_args ?w ?t [(''text'', PStr ''hello'')]
      = Some (Inr (join newline (map item_str [WithText ''id,name'', WithText ''1,Ada''])))"
    by (rule arun_with_args_joins_parts [where result = ?r]) simp_all
  then show ?thesis by (simp add: newline_def)
qed

text \<open>
  Claim C9 as stated fails for the empty list of parts: \<^verbatim>\<open>result.content\<close> is then
  false in the test of line 161, and the caller gets \<^verbatim>\<open>str(result)\<close>, not the empty
  string that joining no parts gives.
\<close>

theorem arun_with_args_empty_parts_counterexample:
  "arun_with_args
     \<lparr>loop_running = False, connect = Some (Inr ()), initialize = Some (Inr ()),
     list_tools = Some (Inr []),
     call_tool = (\<lambda>n a. Some (Inr \<lparr>content = Some (ContentList []),
                                         result_str = ''meta=None content=[] isError=False''\<rparr>)),
     close = Some (Inr ()), reject_tool = (\<lambda>t. None),
     elapsed_ms = 1200\<rparr>
     \<lparr>name = ''keboola_echo'', description = ''Keboola MCP Tool: Echo'',
     mcp_tool_name = ''echo'', mcp_tool_description = ''Echo'',
     mcp_tool_schema = Some [(''text'', PDict [(''type'', PStr ''string'')])],
     tool_server_params = \<lparr>command = ''uvx'', args = [], env = []\<rparr>\<rparr>
     [(''text'', PStr ''hello'')] = Some (Inr ''meta=None content=[] isError=False'')
   \<and> join newline (map item_str []) = []
   \<and> arun_with_args
     \<lparr>loop_running = False, connect = Some (Inr ()), initialize = Some (Inr ()),
     list_tools = Some (Inr []),
     call_tool = (\<lambda>n a. Some (Inr \<lparr>content = Some (ContentList []),
                                         result_str = ''meta=None content=[] isError=False''\<rparr>)),
     close = Some (Inr ()), reject_tool = (\<lambda>t. None),
     elapsed_ms = 1200\<rparr>
     \<lparr>name = ''keboola_echo'', description = ''Keboola MCP Tool: Echo'',
     mcp_tool_name = ''echo'', mcp_tool_description = ''Echo'',
     mcp_tool_schema = Some [(''text'', PDict [(''type'', PStr ''string'')])],
     tool_server_params = \<lparr>command = ''uvx'', args = [], env = []\<rparr>\<rparr>
     [(''text'', PStr ''hello'')] \<noteq> Some (Inr (join newline (map item_str [])))"
  by (simp add: arun_with_args_def session_call_def leave_def extract_content_def reconcile_def
        get_properties_def keys_def)

text \<open>
  Claim C10. With a non-empty set of keyword arguments the payload is made of them
  alone (entries bound to \<^verbatim>\<open>None\<close> are dropped, as for every payload): neither the input
  string nor the parser plays a part, in \<^verbatim>\<open>_arun\<close> and in \<^verbatim>\<open>_run\<close> alike. With no
  keyword arguments, an input that parses as a JSON value other than a mapping gives
  the payload that binds \<^verbatim>\<open>query\<close> to \<^verbatim>\<open>str\<close> of the parsed value.
\<close>

theorem decode_arguments_priority:
  "(kwargs \<noteq> [] \<longrightarrow>
      decode_arguments lib tool_input kwargs = Inr (drop_none kwargs)
      \<and> arun lib w t tool_input kwargs = arun_with_args w t (drop_none kwargs)
      \<and> run lib w t tool_input kwargs = run lib w t [] kwargs)
   \<and> (tool_input \<noteq> [] \<and> json_loads lib tool_input = Inr v \<and> (\<forall>d. v \<noteq> PDict d) \<longrightarrow>
      decode_arguments lib tool_input [] = Inr [(''query'', PStr (py_str lib v))])"
proof (intro conjI impI)
  assume k: "kwargs \<noteq> []"
  then show d: "decode_arguments lib tool_input kwargs = Inr (drop_none kwargs)"
    by (simp add: decode_arguments_def)
  from k have d0: "decode_arguments lib [] kwargs = Inr (drop_none kwargs)"
    by (simp add: decode_arguments_def)
  show "arun lib w t tool_input kwargs = arun_with_args w t (drop_none kwargs)"
    by (simp only: arun_def d sum.case)
  show "run lib w t tool_input kwargs = run lib w t [] kwargs"
    by (simp only: run_def d d0)
next
  assume a: "tool_input \<noteq> [] \<and> json_loads lib tool_input = Inr v \<and> (\<forall>d. v \<noteq> PDict d)"
  then show "decode_arguments lib tool_input [] = Inr [(''query'', PStr (py_str lib v))]"
    by (cases v) (simp_all add: decode_arguments_def drop_none_def)
qed

theorem decode_arguments_priority_witness:
  "decode_arguments
     \<lparr>json_loads = (\<lambda>s. if s = ''{}'' then Inr (PDict [])
                          else if s = ''true'' then Inr (PBool True)
                          else Inl (Exn JSONDecodeError ''Expecting value'')),
      py_str = (\<lambda>v. if v = PBool True then ''True'' else [])\<rparr>
     ''{}'' [(''text'', PStr ''hello''), (''note'', PNone)]
     = Inr [(''text'', PStr ''hello'')]
   \<and> decode_arguments
     \<lparr>json_loads = (\<lambda>s. if s = ''{}'' then Inr (PDict [])
                          else if s = ''true'' then Inr (PBool True)
                          else Inl (Exn JSONDecodeError ''Expecting value'')),
      py_str = (\<lambda>v. if v = PBool True then ''True'' else [])\<rparr>
     ''true'' [] = Inr [(''query'', PStr ''True'')]"
  using decode_arguments_priority
    [where kwargs = "[(''text'', PStr ''hello''), (''note'', PNone)]"
       and tool_input = "''{}''"
       and lib = "\<lparr>json_loads = (\<lambda>s. if s = ''{}'' then Inr (PDict [])
                               else if s = ''true'' then Inr (PBool True)
                               else Inl (Exn JSONDecodeError ''Expecting value'')),
           py_str = (\<lambda>v. if v = PBool True then ''True'' else [])\<rparr>"]
    decode_arguments_priority
    [where kwargs = "[]" and tool_input = "''true''" and v = "PBool True"
       and lib = "\<lparr>json_loads = (\<lambda>s. if s = ''{}'' then Inr (PDict [])
                               else if s = ''true'' then Inr (PBool True)
                               else Inl (Exn JSONDecodeError ''Expecting value'')),
           py_str = (\<lambda>v. if v = PBool True then ''True'' else [])\<rparr>"]
  by (simp add: drop_none_def)

lemma unset_missing:
  "unset environ var \<Longrightarrow> var \<in> set required_vars \<Longrightarrow>
     \<exists>msg. validate_environment environ = Inl (Exn ValueError msg)"
proof -
  assume "unset environ var" "var \<in> set required_vars"
  then have "var \<in> set (filter (unset environ) required_vars)" by simp
  then have "filter (unset environ) required_vars \<noteq> []" by (metis empty_iff empty_set)
  then show ?thesis by (simp add: validate_environment_def)
qed

text \<open>
  The entry point of the crew does what the specification asks: with the endpoint URL
  or the token unset or empty, its constructor raises the \<^verbatim>\<open>ValueError\<close> of
  \<^verbatim>\<open>validate_environment\<close> and no toolset is set up.
\<close>

lemma crew_rejects_missing:
  assumes "unset environ ''KBC_STORAGE_API_URL'' \<or> unset environ ''KBC_STORAGE_TOKEN''"
  shows "\<exists>msg. KeboolaDataAnalysisCrew_init environ = Inl (Exn ValueError msg)"
proof -
  from assms have "\<exists>var. unset environ var \<and> var \<in> set required_vars"
    by (auto simp: required_vars_def)
  then obtain msg where "validate_environment environ = Inl (Exn ValueError msg)"
    using unset_missing by blast
  then show ?thesis
    by (simp add: KeboolaDataAnalysisCrew_init_def)
qed

text \<open>
  The loader passes on whatever the environment holds: when the constructor of
  \<^verbatim>\<open>StdioServerParameters\<close> accepts the parameters, they are the parameters the
  subprocess is started with.
\<close>

lemma loader_no_check:
  "params_ctor (loader_params environ) = None \<Longrightarrow>
     KeboolaMCPToolLoader_init params_ctor environ = Inr (loader_params environ)"
  by (simp add: KeboolaMCPToolLoader_init_def)

text \<open>
  Claim C7 at a failing input: the endpoint URL and the token are set but empty.
  \<^verbatim>\<open>validate_environment\<close> counts both as missing and the constructor of the crew
  raises; \<^verbatim>\<open>KeboolaMCPToolLoader.__init__\<close> raises nothing, even with a constructor of
  \<^verbatim>\<open>StdioServerParameters\<close> that rejects every absent value, and builds the parameters
  that \<^verbatim>\<open>_load_tools_impl\<close> starts the subprocess with, the two values empty.
\<close>

theorem loader_accepts_empty_credentials:
  "unset
     [(''OPENAI_API_KEY'', ''sk-1''), (''KBC_STORAGE_TOKEN'', []),
      (''KBC_WORKSPACE_SCHEMA'', ''WS_1''), (''KBC_STORAGE_API_URL'', [])]
     ''KBC_STORAGE_API_URL''
   \<and> unset
     [(''OPENAI_API_KEY'', ''sk-1''), (''KBC_STORAGE_TOKEN'', []),
      (''KBC_WORKSPACE_SCHEMA'', ''WS_1''), (''KBC_STORAGE_API_URL'', [])]
     ''KBC_STORAGE_TOKEN''
   \<and> KeboolaDataAnalysisCrew_init
     [(''OPENAI_API_KEY'', ''sk-1''), (''KBC_STORAGE_TOKEN'', []),
      (''KBC_WORKSPACE_SCHEMA'', ''WS_1''), (''KBC_STORAGE_API_URL'', [])]
     = Inl (Exn ValueError (''Missing environment variables: ['' @ [CHR 0x27]
              @ ''KBC_STORAGE_TOKEN'' @ [CHR 0x27] @ '', '' @ [CHR 0x27]
              @ ''KBC_STORAGE_API_URL'' @ [CHR 0x27] @ '']''))
   \<and> KeboolaMCPToolLoader_init
     (\<lambda>sp. if None \<in> snd ` set (env sp)
           then Some (Exn ValueError ''Input should be a valid string'') else None)
     [(''OPENAI_API_KEY'', ''sk-1''), (''KBC_STORAGE_TOKEN'', []),
      (''KBC_WORKSPACE_SCHEMA'', ''WS_1''), (''KBC_STORAGE_API_URL'', [])]
     = Inr \<lparr>command = ''uvx'',
            args = [''--from'', ''keboola-mcp-server@1.0.0'', ''keboola-mcp-server''],
            env = [(''KBC_STORAGE_API_URL'', Some []), (''KBC_STORAGE_TOKEN'', Some []),
                   (''KBC_WORKSPACE_SCHEMA'', Some ''WS_1'')]\<rparr>"
  by (simp add: getenv_def getenv_default_def KeboolaDataAnalysisCrew_init_def
        validate_environment_def required_vars_def unset_def repr_names_def
        KeboolaMCPToolLoader_init_def loader_params_def)

end
